theory Spec2Isabelle
  imports Main "HOL-Library.Sublist" "HOL-Library.AList"
begin

section \<open>Python strings\<close>

text \<open>
  A Python \<open>str\<close> is modelled as a \<open>string\<close> whose characters are the code points
  below 256. The character classes below are the ones \<open>str.isspace\<close>,
  \<open>str.isdigit\<close> and \<open>str.lower\<close> have on that range.
\<close>

definition isspace :: "char \<Rightarrow> bool" where
  "isspace c \<longleftrightarrow> c \<in> set [CHR 0x09, CHR 0x0A, CHR 0x0B, CHR 0x0C, CHR 0x0D,
     CHR 0x1C, CHR 0x1D, CHR 0x1E, CHR 0x1F, CHR 0x20, CHR 0x85, CHR 0xA0]"

definition isdigit :: "char \<Rightarrow> bool" where
  "isdigit c =
     (let n = (of_char c :: nat)
      in (48 \<le> n \<and> n \<le> 57) \<or> n = 178 \<or> n = 179 \<or> n = 185)"

definition lower_char :: "char \<Rightarrow> char" where
  "lower_char c =
     (let n = (of_char c :: nat)
      in if (65 \<le> n \<and> n \<le> 90) \<or> (192 \<le> n \<and> n \<le> 222 \<and> n \<noteq> 215)
         then char_of (n + 32) else c)"

definition lower :: "string \<Rightarrow> string" where
  "lower s = map lower_char s"

text \<open>\<open>s.strip()\<close>: leading and trailing whitespace removed.\<close>

definition strip :: "string \<Rightarrow> string" where
  "strip s = rev (dropWhile isspace (rev (dropWhile isspace s)))"

text \<open>\<open>s.split(sep)\<close> for a one-character separator; the second argument is the
  piece read so far. Empty pieces are kept, and the empty string gives one empty piece.\<close>

fun split_on :: "char \<Rightarrow> string \<Rightarrow> string \<Rightarrow> string list" where
  "split_on sep [] cur = [cur]"
| "split_on sep (c # cs) cur =
     (if c = sep then cur # split_on sep cs [] else split_on sep cs (cur @ [c]))"

definition split_char :: "char \<Rightarrow> string \<Rightarrow> string list" where
  "split_char sep s = split_on sep s []"

text \<open>\<open>s.split()\<close>: the maximal runs of non-whitespace characters.\<close>

fun split_ws :: "string \<Rightarrow> string \<Rightarrow> string list" where
  "split_ws [] cur = (if cur = [] then [] else [cur])"
| "split_ws (c # cs) cur =
     (if isspace c then (if cur = [] then split_ws cs [] else cur # split_ws cs [])
      else split_ws cs (cur @ [c]))"

definition split_whitespace :: "string \<Rightarrow> string list" where
  "split_whitespace s = split_ws s []"

text \<open>\<open>s.startswith(p)\<close>, \<open>s.endswith(p)\<close> and \<open>w in s\<close>.\<close>

definition startswith :: "string \<Rightarrow> string \<Rightarrow> bool" where
  "startswith s p = prefix p s"

definition endswith :: "string \<Rightarrow> string \<Rightarrow> bool" where
  "endswith s p = suffix p s"

definition contains :: "string \<Rightarrow> string \<Rightarrow> bool" where
  "contains s w = sublist w s"

section \<open>Text Classifier\<close>

text \<open>The line filter of \<open>_extract_tools_step\<close> (workflow.py, lines 69 to 83), one
  definition for each test of the loop body.\<close>

definition preamble_rule :: "string \<Rightarrow> bool" where
  "preamble_rule line = startswith (lower line) ''here are''"

text \<open>\<open>line[0].isdigit() and "." in line\<close>; the line is not empty when the loop reaches
  this test, and the empty line is given the value False here.\<close>

definition numbered_list_rule :: "string \<Rightarrow> bool" where
  "numbered_list_rule line =
     (case line of [] \<Rightarrow> False | c # _ \<Rightarrow> isdigit c \<and> contains line ''.'')"

definition summary_keywords :: "string list" where
  "summary_keywords =
     [''top'', ''mentioned'', ''alternatives'', ''tools'', ''summary'', ''article'', ''content'']"

definition summary_rule :: "string \<Rightarrow> bool" where
  "summary_rule line = list_ex (\<lambda>word. contains (lower line) word) summary_keywords"

definition word_count_rule :: "string \<Rightarrow> bool" where
  "word_count_rule line = (length (split_whitespace line) > 5)"

fun filter_lines :: "string list \<Rightarrow> string list" where
  "filter_lines [] = []"
| "filter_lines (raw # rest) =
     (let line = strip raw
      in if line = [] then filter_lines rest
         else if preamble_rule line then filter_lines rest
         else if numbered_list_rule line then filter_lines rest
         else if summary_rule line then filter_lines rest
         else if word_count_rule line then filter_lines rest
         else line # filter_lines rest)"

text \<open>The classifier on a text: \<open>content.strip().split("\n")\<close>, then the filter.\<close>

definition classify :: "string \<Rightarrow> string list" where
  "classify text = filter_lines (split_char CHR 0x0A (strip text))"

text \<open>The numbered-list marker in the specification's words: a digit immediately followed
  by a full stop.\<close>

definition spec_numbered_marker :: "string \<Rightarrow> bool" where
  "spec_numbered_marker line =
     (case line of c # d # _ \<Rightarrow> isdigit c \<and> d = CHR ''.'' | _ \<Rightarrow> False)"

text \<open>\<open>sep.join(parts)\<close>.\<close>

fun join :: "string \<Rightarrow> string list \<Rightarrow> string" where
  "join sep [] = []"
| "join sep [x] = x"
| "join sep (x # y # ys) = x @ sep @ join sep (y # ys)"

text \<open>\<open>s.find(c)\<close> and \<open>s.rfind(c)\<close> for a character; \<open>None\<close> stands for the
  result \<open>-1\<close>.\<close>

definition find_index :: "string \<Rightarrow> char \<Rightarrow> nat option" where
  "find_index s c =
     (if c \<in> set s then Some (length (takeWhile (\<lambda>x. x \<noteq> c) s)) else None)"

definition rfind_index :: "string \<Rightarrow> char \<Rightarrow> nat option" where
  "rfind_index s c =
     (if c \<in> set s then Some (length s - 1 - length (takeWhile (\<lambda>x. x \<noteq> c) (rev s)))
      else None)"

text \<open>\<open>s[i:j]\<close> for indices that are not negative; empty when \<open>j \<le> i\<close>.\<close>

definition slice :: "string \<Rightarrow> nat \<Rightarrow> nat \<Rightarrow> string" where
  "slice s i j = take (j - i) (drop i s)"

section \<open>Prompts (prompts.py)\<close>

definition TOOL_EXTRACTION_SYSTEM :: "string" where
  \<open>TOOL_EXTRACTION_SYSTEM = join [CHR 0x0A]
     [''You are a tech researcher. Extract specific tool, library, platform, or service names from articles.'',
      ''                            Focus on actual products/tools that developers can use, not general concepts or features.'']\<close>

definition tool_extraction_user :: "string \<Rightarrow> string \<Rightarrow> string" where
  \<open>tool_extraction_user query content = join [CHR 0x0A]
     [''Query: '' @ query,
      ''                Article Content: '' @ content,
      ''                '',
      ''                Extract a list of specific tool/service names mentioned in this content that are relevant to "'' @ query @ ''".'',
      ''                '',
      ''                Rules:'',
      ''                - Only include actual product names, not generic terms'',
      ''                - Focus on tools developers can directly use/implement'',
      ''                - Include both open source and commercial options'',
      ''                - Limit to the 5 most relevant tools'',
      ''                - Return just the tool names, one per line, no descriptions'',
      ''                '',
      ''                Example format:'',
      ''                Supabase'',
      ''                PlanetScale'',
      ''                Railway'',
      ''                Appwrite'',
      ''                Nhost'']\<close>

definition TOOL_ANALYSIS_SYSTEM :: "string" where
  \<open>TOOL_ANALYSIS_SYSTEM = join [CHR 0x0A]
     [''You are analyzing developer tools and programming technologies.'',
      ''                            Focus on extracting information relevant to programmers and software developers.'',
      ''                            Pay special attention to programming languages, frameworks, APIs, SDKs, and development workflows.'',
      ''                            '',
      ''                            CRITICAL: You must respond with ONLY valid JSON. No explanations, no markdown formatting, no additional text.'',
      ''                            Start your response immediately with { and end with }.'']\<close>

definition tool_analysis_user :: "string \<Rightarrow> string \<Rightarrow> string" where
  \<open>tool_analysis_user company_name content = join [CHR 0x0A]
     [''Analyze: '' @ company_name,
      ''Content: '' @ take 2000 content,
      '''',
      ''Return ONLY this JSON structure (no other text):'',
      ''{'',
      ''  "pricing_model": "Free",'',
      ''  "is_open_source": false,'',
      ''  "tech_stack": ["AI", "Machine Learning"],'',
      ''  "description": "'' @ company_name @ '' is an AI-powered coding assistant that helps developers write code faster",'',
      ''  "api_available": true,'',
      ''  "language_support": ["Python", "JavaScript"],'',
      ''  "integration_capabilities": ["VS Code", "GitHub"]'',
      ''}'',
      '''',
      ''Rules:'',
      ''- pricing_model: "Free", "Freemium", "Paid", "Enterprise", or "Unknown"'',
      ''- is_open_source: true, false, or null (no quotes)'',
      ''- Arrays must contain quoted strings'',
      ''- description: single sentence under 100 characters'',
      ''- Start response with { and end with }'',
      ''- No markdown, no explanations, ONLY JSON'']\<close>

definition RECOMMENDATIONS_SYSTEM :: "string" where
  \<open>RECOMMENDATIONS_SYSTEM = join [CHR 0x0A]
     [''You are a senior software engineer providing quick, concise tech recommendations.'',
      ''                            Keep responses brief and actionable - maximum 3-4 sentences total.'']\<close>

definition recommendations_user :: "string \<Rightarrow> string \<Rightarrow> string" where
  \<open>recommendations_user query company_data = join [CHR 0x0A]
     [''Developer Query: '' @ query,
      ''                Tools/Technologies Analyzed: '' @ company_data,
      ''                '',
      ''                Provide a brief recommendation (3-4 sentences max) covering:'',
      ''                - Which tool is best and why'',
      ''                - Key cost/pricing consideration'',
      ''                - Main technical advantage'',
      ''                '',
      ''                Be concise and direct - no long explanations needed.'']\<close>

section \<open>Python values, exceptions and the collaborators\<close>

text \<open>The values \<open>json.loads\<close> returns and keyword arguments carry. A float is kept as a
  mantissa and a binary exponent; the pipeline never computes with numbers.\<close>

datatype pyval =
    PNone
  | PBool bool
  | PInt int
  | PFloat int int
  | PStr string
  | PList "pyval list"
  | PDict "(string \<times> pyval) list"

text \<open>Exceptions: every value of this type is an instance of Python's \<open>Exception\<close>, the
  class the handlers of the pipeline catch.\<close>

datatype exn =
    ValueError string
  | AttributeError
  | TypeError
  | JSONDecodeError
  | ValidationError
  | OtherException string

text \<open>How one pass through a loop body ends without raising.\<close>

datatype 'a flow = Continue | Return 'a

datatype message = SystemMessage string | HumanMessage string

text \<open>The \<open>content\<close> of a response of the text-generation client: a string, or a list
  of content parts.\<close>

datatype content = Text string | Parts "pyval list"

text \<open>
  Modelled from the spec: the search and scrape service (src/firecrawl_service.py is not
  among the sources). A search response either exposes an ordered list of results, each
  with an optional url, an optional markdown snippet and an optional title in its
  metadata, or lacks the list; a scrape gives no page, or a page whose markdown body is a
  string or is missing. Neither call raises.
\<close>

record search_result =
  result_url :: "string option"
  result_markdown :: "string option"
  result_title :: "string option"

datatype search_response = NoData | Data "search_result list"

datatype scraped = NoPage | Page "string option"

text \<open>
  Modelled from the spec: the records of src/models.py, which is not among the sources.
  The fields hold Python values; \<open>CompanyAnalysis\<close> below is the validating constructor.
\<close>

record company_analysis =
  pricing_model :: pyval
  is_open_source :: pyval
  tech_stack :: pyval
  description :: pyval
  api_available :: pyval
  language_support :: pyval
  integration_capabilities :: pyval

record company_info =
  c_name :: string
  c_description :: pyval
  c_website :: string
  c_tech_stack :: pyval
  c_competitors :: pyval
  c_pricing_model :: pyval
  c_is_open_source :: pyval
  c_api_available :: pyval
  c_language_support :: pyval
  c_integration_capabilities :: pyval

record research_state =
  query :: string
  extracted_tools :: "string list"
  companies :: "company_info list"
  analysis :: "content option"

text \<open>The calls the pipeline makes to its collaborators, in the order it makes them.\<close>

datatype event =
    Invoke "message list"
  | Search string nat
  | Scrape string

text \<open>
  The collaborators are functions on a hidden world \<open>'w\<close>, so that the same call may
  answer differently each time: the text-generation client, which returns a content or
  raises; the search and the scrape service; \<open>json.loads\<close>; and the serialisation
  \<open>company.json()\<close> of a company record. All of them return.
\<close>

record 'w collaborators =
  llm :: "message list \<Rightarrow> 'w \<Rightarrow> (exn + content) \<times> 'w"
  firecrawl_search :: "string \<Rightarrow> nat \<Rightarrow> 'w \<Rightarrow> search_response \<times> 'w"
  firecrawl_scrape :: "string \<Rightarrow> 'w \<Rightarrow> scraped \<times> 'w"
  json_loads :: "string \<Rightarrow> exn + pyval"
  company_json :: "company_info \<Rightarrow> string"

record 'w session =
  world :: 'w
  trace :: "event list"

definition llm_invoke ::
  "'w collaborators \<Rightarrow> message list \<Rightarrow> 'w session \<Rightarrow> (exn + content) \<times> 'w session" where
  "llm_invoke env messages s =
     (case llm env messages (world s) of
        (r, w) \<Rightarrow> (r, \<lparr>world = w, trace = trace s @ [Invoke messages]\<rparr>))"

definition search_companies ::
  "'w collaborators \<Rightarrow> string \<Rightarrow> nat \<Rightarrow> 'w session \<Rightarrow> search_response \<times> 'w session" where
  "search_companies env q num_results s =
     (case firecrawl_search env q num_results (world s) of
        (r, w) \<Rightarrow> (r, \<lparr>world = w, trace = trace s @ [Search q num_results]\<rparr>))"

definition scrape_company_pages ::
  "'w collaborators \<Rightarrow> string \<Rightarrow> 'w session \<Rightarrow> scraped \<times> 'w session" where
  "scrape_company_pages env url s =
     (case firecrawl_scrape env url (world s) of
        (r, w) \<Rightarrow> (r, \<lparr>world = w, trace = trace s @ [Scrape url]\<rparr>))"

text \<open>\<open>search_results.data if hasattr(search_results, 'data') else []\<close>.\<close>

definition results_data :: "search_response \<Rightarrow> search_result list" where
  "results_data r = (case r of Data rs \<Rightarrow> rs | NoData \<Rightarrow> [])"

section \<open>Structured-Response Recovery Engine\<close>

definition is_str :: "pyval \<Rightarrow> bool" where
  "is_str v = (case v of PStr _ \<Rightarrow> True | _ \<Rightarrow> False)"

definition is_list :: "pyval \<Rightarrow> bool" where
  "is_list v = (case v of PList _ \<Rightarrow> True | _ \<Rightarrow> False)"

definition is_str_list :: "pyval \<Rightarrow> bool" where
  "is_str_list v = (case v of PList xs \<Rightarrow> list_all is_str xs | _ \<Rightarrow> False)"

definition is_optional_bool :: "pyval \<Rightarrow> bool" where
  "is_optional_bool v = (case v of PNone \<Rightarrow> True | PBool _ \<Rightarrow> True | _ \<Rightarrow> False)"

definition pricing_values :: "string list" where
  "pricing_values = [''Free'', ''Freemium'', ''Paid'', ''Enterprise'', ''Unknown'']"

definition is_pricing :: "pyval \<Rightarrow> bool" where
  "is_pricing v = (case v of PStr p \<Rightarrow> p \<in> set pricing_values | _ \<Rightarrow> False)"

text \<open>\<open>d.get(key, default)\<close> on a dictionary.\<close>

definition get_or :: "(string \<times> pyval) list \<Rightarrow> string \<Rightarrow> pyval \<Rightarrow> pyval" where
  "get_or d k dflt = (case map_of d k of Some v \<Rightarrow> v | None \<Rightarrow> dflt)"

text \<open>
  Modelled from the spec: the constructor of \<open>CompanyAnalysis\<close>, called with keyword
  arguments (src/models.py is not among the sources). A ToolAnalysis has pricingModel in the enumeration
  Free, Freemium, Paid, Enterprise, Unknown (default Unknown), isOpenSource and
  apiAvailable optional booleans (default unset), techStack, languageSupport and
  integrationCapabilities lists of strings (default empty) and a description string.
  The constructor raises a validation error on any other argument, and on a missing
  description; keys that name no field are ignored.
\<close>

definition CompanyAnalysis :: "(string \<times> pyval) list \<Rightarrow> exn + company_analysis" where
  "CompanyAnalysis kwargs =
     (let a = \<lparr>pricing_model = get_or kwargs ''pricing_model'' (PStr ''Unknown''),
                is_open_source = get_or kwargs ''is_open_source'' PNone,
                tech_stack = get_or kwargs ''tech_stack'' (PList []),
                description = get_or kwargs ''description'' PNone,
                api_available = get_or kwargs ''api_available'' PNone,
                language_support = get_or kwargs ''language_support'' (PList []),
                integration_capabilities = get_or kwargs ''integration_capabilities'' (PList [])\<rparr>
      in if is_pricing (pricing_model a) \<and> is_optional_bool (is_open_source a)
            \<and> is_str_list (tech_stack a) \<and> is_str (description a)
            \<and> is_optional_bool (api_available a) \<and> is_str_list (language_support a)
            \<and> is_str_list (integration_capabilities a)
         then Inr a else Inl ValidationError)"

text \<open>The keyword scan of \<open>_create_fallback_analysis\<close> (lines 190 to 201).\<close>

definition fallback_pricing :: "string \<Rightarrow> string" where
  "fallback_pricing content =
     (let content_lower = lower content
      in if list_ex (\<lambda>word. contains content_lower word) [''free'', ''$0'', ''no cost'']
         then ''Free''
         else if list_ex (\<lambda>word. contains content_lower word)
                   [''freemium'', ''free tier'', ''free plan'']
         then ''Freemium''
         else if list_ex (\<lambda>word. contains content_lower word) [''enterprise'', ''contact sales'']
         then ''Enterprise''
         else if list_ex (\<lambda>word. contains content_lower word)
                   [''$'', ''price'', ''paid'', ''subscription'']
         then ''Paid''
         else ''Unknown'')"

definition create_fallback_analysis ::
  "string \<Rightarrow> string \<Rightarrow> string \<Rightarrow> exn + company_analysis" where
  "create_fallback_analysis company_name llm_response content =
     (let descr = company_name @ '' is a developer tool'';
          pricing = fallback_pricing content;
          tech = [];
          langs0 = [];
          integ0 = [];
          integ1 = (if contains (lower company_name) ''github''
                    then [''GitHub'', ''VS Code''] else integ0);
          langs1 = (if contains (lower company_name) ''copilot''
                    then [''Python'', ''JavaScript'', ''TypeScript''] else langs0);
          integ2 = (if contains (lower company_name) ''cursor''
                    then [''VS Code''] else integ1);
          integ3 = (if contains (lower company_name) ''tabnine''
                    then [''VS Code'', ''IntelliJ'', ''Sublime Text''] else integ2)
      in CompanyAnalysis
           [(''pricing_model'', PStr pricing),
            (''is_open_source'', PNone),
            (''tech_stack'', PList (map PStr tech)),
            (''description'', PStr descr),
            (''api_available'', PNone),
            (''language_support'', PList (map PStr langs1)),
            (''integration_capabilities'', PList (map PStr integ3))])"

definition max_retries :: nat where
  "max_retries = 2"

definition analysis_messages :: "string \<Rightarrow> string \<Rightarrow> message list" where
  "analysis_messages company_name content =
     [SystemMessage TOOL_ANALYSIS_SYSTEM,
      HumanMessage (tool_analysis_user company_name content)]"

text \<open>Lines 118 to 122: a leading \<open>```json\<close> and a trailing \<open>```\<close> are cut, and the
  rest is stripped.\<close>

definition strip_fences :: "string \<Rightarrow> string" where
  "strip_fences json_str =
     (let s1 = (if startswith json_str ''```json'' then drop 7 json_str else json_str);
          s2 = (if endswith s1 ''```'' then take (length s1 - 3) s1 else s1)
      in strip s2)"

text \<open>Lines 144 to 158, for one key: a string value becomes a boolean or \<open>None\<close>.\<close>

definition coerce_bool :: "(string \<times> pyval) list \<Rightarrow> string \<Rightarrow> (string \<times> pyval) list" where
  "coerce_bool data k =
     (case map_of data k of
        Some (PStr v) \<Rightarrow>
          if lower v = ''true'' then AList.update k (PBool True) data
          else if lower v = ''false'' then AList.update k (PBool False) data
          else AList.update k PNone data
      | _ \<Rightarrow> data)"

text \<open>Lines 161 to 165, for one field: a missing or non-list value becomes \<open>[]\<close>.\<close>

definition ensure_list :: "(string \<times> pyval) list \<Rightarrow> string \<Rightarrow> (string \<times> pyval) list" where
  "ensure_list data field =
     (case map_of data field of
        None \<Rightarrow> AList.update field (PList []) data
      | Some v \<Rightarrow> if \<not> is_list v then AList.update field (PList []) data else data)"

text \<open>Lines 168 to 171: a missing key gets its placeholder.\<close>

definition ensure_key :: "(string \<times> pyval) list \<Rightarrow> string \<Rightarrow> pyval \<Rightarrow> (string \<times> pyval) list" where
  "ensure_key data k v = (if map_of data k = None then AList.update k v data else data)"

text \<open>Lines 143 to 171: the repairs made to the parsed dictionary.\<close>

definition repair_data :: "(string \<times> pyval) list \<Rightarrow> (string \<times> pyval) list" where
  "repair_data data =
     (let d1 = coerce_bool data ''is_open_source'';
          d2 = coerce_bool d1 ''api_available'';
          d3 = foldl ensure_list d2
                 [''tech_stack'', ''language_support'', ''integration_capabilities''];
          d4 = ensure_key d3 ''pricing_model'' (PStr ''Unknown'')
      in ensure_key d4 ''description'' (PStr ''No description available''))"

text \<open>Lines 141 to 174: parse, repair, construct. \<open>data.get\<close> on a value that is not a
  dictionary raises.\<close>

definition parse_analysis :: "'w collaborators \<Rightarrow> string \<Rightarrow> exn + company_analysis" where
  "parse_analysis env json_str =
     (case json_loads env json_str of
        Inl e \<Rightarrow> Inl e
      | Inr (PDict data) \<Rightarrow> CompanyAnalysis (repair_data data)
      | Inr _ \<Rightarrow> Inl AttributeError)"

text \<open>The body of the \<open>try\<close> block for one attempt (lines 95 to 174): it raises, goes on
  to the next attempt, or returns an analysis.\<close>

definition attempt_body ::
  "'w collaborators \<Rightarrow> string \<Rightarrow> string \<Rightarrow> nat \<Rightarrow> 'w session
     \<Rightarrow> (exn + company_analysis flow) \<times> 'w session" where
  "attempt_body env company_name content attempt s =
     (case llm_invoke env (analysis_messages company_name content) s of
        (Inl e, s') \<Rightarrow> (Inl e, s')
      | (Inr (Parts _), s') \<Rightarrow> (Inl AttributeError, s')
      | (Inr (Text t), s') \<Rightarrow>
          (let json_str = strip t
           in if json_str = [] then
                (if attempt < max_retries - 1 then Inr Continue
                 else Inl (ValueError ''Empty response from LLM''))
              else
                (let json_str = strip_fences json_str
                 in if \<not> startswith json_str ''{'' then
                      (case (find_index json_str CHR ''{'', rfind_index json_str CHR ''}'') of
                         (Some start_idx, Some end_idx) \<Rightarrow>
                           map_sum id Return
                             (parse_analysis env (slice json_str start_idx (end_idx + 1)))
                       | _ \<Rightarrow>
                           if attempt < max_retries - 1 then Inr Continue
                           else map_sum id Return
                                  (create_fallback_analysis company_name json_str content))
                    else map_sum id Return (parse_analysis env json_str)),
           s'))"

text \<open>The loop over the attempts with its handler (lines 93 and 176 to 184). When the
  attempts are used up the Python function ends without a \<open>return\<close>, that is, it
  returns \<open>None\<close>.\<close>

fun analyze_attempts ::
  "'w collaborators \<Rightarrow> string \<Rightarrow> string \<Rightarrow> nat list \<Rightarrow> 'w session
     \<Rightarrow> (exn + company_analysis option) \<times> 'w session" where
  "analyze_attempts env company_name content [] s = (Inr None, s)"
| "analyze_attempts env company_name content (attempt # rest) s =
     (case attempt_body env company_name content attempt s of
        (Inr (Return a), s') \<Rightarrow> (Inr (Some a), s')
      | (Inr Continue, s') \<Rightarrow> analyze_attempts env company_name content rest s'
      | (Inl e, s') \<Rightarrow>
          if attempt < max_retries - 1
          then analyze_attempts env company_name content rest s'
          else (map_sum id Some (create_fallback_analysis company_name [] content), s'))"

definition analyze_company_content ::
  "'w collaborators \<Rightarrow> string \<Rightarrow> string \<Rightarrow> 'w session
     \<Rightarrow> (exn + company_analysis option) \<times> 'w session" where
  "analyze_company_content env company_name content s =
     analyze_attempts env company_name content [0..<max_retries] s"


section \<open>Pipeline Orchestrator\<close>

text \<open>The scraping loop of \<open>_extract_tools_step\<close> (lines 52 to 58).\<close>

fun gather_content ::
  "'w collaborators \<Rightarrow> search_result list \<Rightarrow> string \<Rightarrow> 'w session \<Rightarrow> string \<times> 'w session" where
  "gather_content env [] all_content s = (all_content, s)"
| "gather_content env (result # rest) all_content s =
     (let url = (case result_url result of Some u \<Rightarrow> u | None \<Rightarrow> [])
      in if endswith url ''.pdf'' then gather_content env rest all_content s
         else
           (case scrape_company_pages env url s of
              (Page (Some md), s') \<Rightarrow>
                if strip md \<noteq> []
                then gather_content env rest (all_content @ take 1500 md @ [CHR 0x0A, CHR 0x0A]) s'
                else gather_content env rest all_content s'
            | (_, s') \<Rightarrow> gather_content env rest all_content s'))"

definition extraction_messages :: "string \<Rightarrow> string \<Rightarrow> message list" where
  "extraction_messages q all_content =
     [SystemMessage TOOL_EXTRACTION_SYSTEM, HumanMessage (tool_extraction_user q all_content)]"

text \<open>\<open>_extract_tools_step\<close>: the value is the list stored under \<open>extracted_tools\<close>. The
  \<open>try\<close> block holds the generation call and the classifier; its handler returns the
  empty list.\<close>

definition extract_tools_step ::
  "'w collaborators \<Rightarrow> research_state \<Rightarrow> 'w session \<Rightarrow> string list \<times> 'w session" where
  "extract_tools_step env state s =
     (let article_query = query state @ '' tools comparison best alternatives''
      in case search_companies env article_query 3 s of
           (search_results, s1) \<Rightarrow>
             (case gather_content env (results_data search_results) [] s1 of
                (all_content, s2) \<Rightarrow>
                  (case llm_invoke env (extraction_messages (query state) all_content) s2 of
                     (Inl e, s3) \<Rightarrow> ([], s3)
                   | (Inr (Text t), s3) \<Rightarrow> (classify t, s3)
                   | (Inr (Parts _), s3) \<Rightarrow> ([], s3))))"

text \<open>The loop over the tool names in \<open>_research_step\<close> (lines 244 to 276). Reading a
  field of the analysis raises when \<open>_analyze_company_content\<close> returned \<open>None\<close>.\<close>

fun research_tools ::
  "'w collaborators \<Rightarrow> string list \<Rightarrow> company_info list \<Rightarrow> 'w session
     \<Rightarrow> (exn + company_info list) \<times> 'w session" where
  "research_tools env [] acc s = (Inr acc, s)"
| "research_tools env (tool_name # rest) acc s =
     (case search_companies env (tool_name @ '' official site'') 1 s of
        (tool_search_results, s1) \<Rightarrow>
          (case results_data tool_search_results of
             [] \<Rightarrow> research_tools env rest acc s1
           | result # _ \<Rightarrow>
               (let url = (case result_url result of Some u \<Rightarrow> u | None \<Rightarrow> []);
                    company = \<lparr>c_name = tool_name,
                               c_description =
                                 PStr (case result_markdown result of Some m \<Rightarrow> m | None \<Rightarrow> []),
                               c_website = url,
                               c_tech_stack = PList [],
                               c_competitors = PList [],
                               c_pricing_model = PNone,
                               c_is_open_source = PNone,
                               c_api_available = PNone,
                               c_language_support = PList [],
                               c_integration_capabilities = PList []\<rparr>
                in case scrape_company_pages env url s1 of
                     (page, s2) \<Rightarrow>
                       (let content = (case page of Page (Some md) \<Rightarrow> md | _ \<Rightarrow> [])
                        in case analyze_company_content env (c_name company) content s2 of
                             (Inl e, s3) \<Rightarrow> (Inl e, s3)
                           | (Inr None, s3) \<Rightarrow> (Inl AttributeError, s3)
                           | (Inr (Some a), s3) \<Rightarrow>
                               research_tools env rest
                                 (acc @ [company
                                    \<lparr>c_pricing_model := pricing_model a,
                                     c_is_open_source := is_open_source a,
                                     c_tech_stack := tech_stack a,
                                     c_description := description a,
                                     c_api_available := api_available a,
                                     c_language_support := language_support a,
                                     c_integration_capabilities := integration_capabilities a\<rparr>])
                                 s3))))"

text \<open>The choice of the tool names (lines 228 to 240).\<close>

definition choose_tool_names ::
  "'w collaborators \<Rightarrow> research_state \<Rightarrow> 'w session \<Rightarrow> string list \<times> 'w session" where
  "choose_tool_names env state s =
     (if extracted_tools state = [] then
        (case search_companies env (query state) 4 s of
           (search_results, s') \<Rightarrow>
             (map (\<lambda>result. case result_title result of Some t \<Rightarrow> t | None \<Rightarrow> ''Unknown'')
                (results_data search_results), s'))
      else (take 4 (extracted_tools state), s))"

definition research_step ::
  "'w collaborators \<Rightarrow> research_state \<Rightarrow> 'w session
     \<Rightarrow> (exn + company_info list) \<times> 'w session" where
  "research_step env state s =
     (case choose_tool_names env state s of
        (tool_names, s1) \<Rightarrow> research_tools env tool_names [] s1)"

definition recommendation_messages :: "'w collaborators \<Rightarrow> research_state \<Rightarrow> message list" where
  "recommendation_messages env state =
     (let company_data = join '', '' (map (company_json env) (companies state))
      in [SystemMessage RECOMMENDATIONS_SYSTEM,
          HumanMessage (recommendations_user (query state) company_data)])"

text \<open>\<open>_analyze_step\<close>: one generation call, outside any \<open>try\<close>.\<close>

definition analyze_step ::
  "'w collaborators \<Rightarrow> research_state \<Rightarrow> 'w session \<Rightarrow> (exn + content) \<times> 'w session" where
  "analyze_step env state s = llm_invoke env (recommendation_messages env state) s"

text \<open>\<open>run\<close>: the graph of \<open>_build_workflow\<close> is the chain extract_tools, research,
  analyze; each node's result is stored in the state, and an exception of a node ends
  the run. \<open>run_from_research\<close> is the part of the chain after the first node.\<close>

definition run_from_research ::
  "'w collaborators \<Rightarrow> research_state \<Rightarrow> 'w session \<Rightarrow> (exn + research_state) \<times> 'w session" where
  "run_from_research env state1 s1 =
     (case research_step env state1 s1 of
        (Inl e, s2) \<Rightarrow> (Inl e, s2)
      | (Inr cs, s2) \<Rightarrow>
          (let state2 = state1\<lparr>companies := cs\<rparr>
           in case analyze_step env state2 s2 of
                (Inl e, s3) \<Rightarrow> (Inl e, s3)
              | (Inr r, s3) \<Rightarrow> (Inr (state2\<lparr>analysis := Some r\<rparr>), s3)))"

definition initial_state :: "string \<Rightarrow> research_state" where
  "initial_state q = \<lparr>query = q, extracted_tools = [], companies = [], analysis = None\<rparr>"

definition run ::
  "'w collaborators \<Rightarrow> string \<Rightarrow> 'w session \<Rightarrow> (exn + research_state) \<times> 'w session" where
  "run env q s =
     (case extract_tools_step env (initial_state q) s of
        (tools, s1) \<Rightarrow> run_from_research env ((initial_state q)\<lparr>extracted_tools := tools\<rparr>) s1)"

text \<open>The generation calls and the search queries recorded in a trace.\<close>

definition llm_calls :: "event list \<Rightarrow> nat" where
  "llm_calls evs = length (filter (\<lambda>ev. case ev of Invoke _ \<Rightarrow> True | _ \<Rightarrow> False) evs)"

definition searches :: "event list \<Rightarrow> (string \<times> nat) list" where
  "searches evs = concat (map (\<lambda>ev. case ev of Search q n \<Rightarrow> [(q, n)] | _ \<Rightarrow> []) evs)"

text \<open>The pricing scan in the specification's words: the lower-cased content is matched
  against four ordered keyword groups, the first group with a keyword that occurs in
  it wins, and the value is Unknown when none does.\<close>

definition spec_keyword_groups :: "(string list \<times> string) list" where
  "spec_keyword_groups =
     [([''free'', ''$0'', ''no cost''], ''Free''),
      ([''freemium'', ''free tier'', ''free plan''], ''Freemium''),
      ([''enterprise'', ''contact sales''], ''Enterprise''),
      ([''$'', ''price'', ''paid'', ''subscription''], ''Paid'')]"

fun first_match :: "string \<Rightarrow> (string list \<times> string) list \<Rightarrow> string" where
  "first_match text [] = ''Unknown''"
| "first_match text ((keywords, label) # groups) =
     (if list_ex (\<lambda>word. contains text word) keywords then label
      else first_match text groups)"

definition spec_pricing_scan :: "string \<Rightarrow> string" where
  "spec_pricing_scan content = first_match (lower content) spec_keyword_groups"

text \<open>The invariant of a ToolAnalysis in the specification's words: the three list
  fields are lists, the pricing model is one of the five values, and the two optional
  booleans are true, false or unset.\<close>

definition tool_analysis_invariant :: "company_analysis \<Rightarrow> bool" where
  "tool_analysis_invariant a \<longleftrightarrow>
     is_list (tech_stack a) \<and> is_list (language_support a)
     \<and> is_list (integration_capabilities a)
     \<and> pricing_model a \<in> PStr ` {''Free'', ''Freemium'', ''Paid'', ''Enterprise'', ''Unknown''}
     \<and> is_open_source a \<in> {PBool True, PBool False, PNone}
     \<and> api_available a \<in> {PBool True, PBool False, PNone}"


text \<open>A line is kept by the loop body when it is not empty and none of the four rules
  fires; the loop is then a filter over the stripped lines.\<close>

definition kept :: "string \<Rightarrow> bool" where
  "kept line \<longleftrightarrow> line \<noteq> [] \<and> \<not> preamble_rule line \<and> \<not> numbered_list_rule line
     \<and> \<not> summary_rule line \<and> \<not> word_count_rule line"

text \<open>The search \<open>_research_step\<close> issues for a tool name: the query and the number
  of results asked for.\<close>

definition official_site :: "string \<Rightarrow> string \<times> nat" where
  "official_site tool_name = (tool_name @ '' official site'', 1)"

section \<open>Scripted collaborators\<close>

text \<open>Collaborators for running the pipeline on concrete inputs: the world is the list
  of the answers the text-generation client still has to give, and the client raises
  once the list is used up; every search gives the same response and every scrape the
  same page.\<close>

definition scripted_env ::
  "search_response \<Rightarrow> scraped \<Rightarrow> (string \<Rightarrow> exn + pyval)
     \<Rightarrow> ((exn + content) list) collaborators" where
  "scripted_env found page loads =
     \<lparr>llm = (\<lambda>messages w. case w of
                 [] \<Rightarrow> (Inl (OtherException ''connection refused''), [])
               | r # rs \<Rightarrow> (r, rs)),
      firecrawl_search = (\<lambda>q num_results w. (found, w)),
      firecrawl_scrape = (\<lambda>url w. (page, w)),
      json_loads = loads,
      company_json = c_name\<rparr>"

definition script :: "(exn + content) list \<Rightarrow> ((exn + content) list) session" where
  "script rs = \<lparr>world = rs, trace = []\<rparr>"

text \<open>Two stand-ins for \<open>json.loads\<close>: one that rejects every text, and one that
  accepts a single object.\<close>

definition no_json :: "string \<Rightarrow> exn + pyval" where
  "no_json j = Inl JSONDecodeError"

definition one_object :: "string \<Rightarrow> exn + pyval" where
  "one_object j =
     (if j = ''{\"is_open_source\": \"TRUE\", \"tech_stack\": 3}''
      then Inr (PDict [(''is_open_source'', PStr ''TRUE''), (''tech_stack'', PInt 3)])
      else Inl JSONDecodeError)"


section \<open>Properties of the Text Classifier\<close>

lemma dropWhile_rev_dropWhile:
  assumes "dropWhile P xs = xs"
  shows "dropWhile P (rev (dropWhile P (rev xs))) = rev (dropWhile P (rev xs))"
proof (cases "rev (dropWhile P (rev xs)) = []")
  case True
  then show ?thesis by (metis dropWhile.simps(1))
next
  case False
  have "rev xs = takeWhile P (rev xs) @ dropWhile P (rev xs)"
    by simp
  then have "xs = rev (dropWhile P (rev xs)) @ rev (takeWhile P (rev xs))"
    by (metis rev_append rev_rev_ident)
  with False have hd_eq: "hd (rev (dropWhile P (rev xs))) = hd xs"
    by (metis hd_append2)
  from False have "xs \<noteq> []" by auto
  with assms have "\<not> P (hd xs)"
    by (simp add: dropWhile_eq_self_iff)
  with hd_eq show ?thesis
    by (simp add: dropWhile_eq_self_iff)
qed

lemma strip_idem: "strip (strip s) = strip s"
proof -
  define t where "t = dropWhile isspace s"
  have "dropWhile isspace t = t"
    by (simp add: t_def)
  then have "dropWhile isspace (rev (dropWhile isspace (rev t))) = rev (dropWhile isspace (rev t))"
    by (rule dropWhile_rev_dropWhile)
  then show ?thesis
    by (simp add: strip_def t_def)
qed

lemma contains_char: "contains s [c] \<longleftrightarrow> c \<in> set s"
  unfolding contains_def by (induction s) (auto simp: sublist_Cons_right)

lemma filter_lines_filter: "filter_lines ls = filter kept (map strip ls)"
  by (induction ls) (simp_all add: Let_def kept_def)

lemma filter_lines_idem: "filter_lines (filter_lines ls) = filter_lines ls"
proof -
  have "map strip (filter kept (map strip ls)) = filter kept (map strip ls)"
    by (induction ls) (simp_all add: strip_idem)
  then show ?thesis
    by (simp add: filter_lines_filter)
qed

text \<open>
  C3 (as stated, refuted). The line \<open>3D v2.0\<close> is trimmed and not empty, its first
  character is a digit and its only full stop comes later; no other rule fires on it,
  and the numbered-list rule discards it.
\<close>

theorem numbered_list_rule_counterexample:
  "strip ''3D v2.0'' = ''3D v2.0'' \<and> \<not> spec_numbered_marker ''3D v2.0''
   \<and> numbered_list_rule ''3D v2.0''
   \<and> \<not> preamble_rule ''3D v2.0'' \<and> \<not> summary_rule ''3D v2.0''
   \<and> \<not> word_count_rule ''3D v2.0'' \<and> filter_lines [''3D v2.0''] = []"
  by code_simp

text \<open>
  C3 (amended). For every non-empty trimmed line, the numbered-list rule fires exactly
  when the first character of the line is a digit and a full stop occurs anywhere in the
  line; a line on which it fires is discarded, and every line that begins with a digit
  immediately followed by a full stop is among them.
\<close>

theorem numbered_list_rule_digit_and_dot:
  assumes "line \<noteq> []" and "strip line = line"
  shows "(numbered_list_rule line \<longleftrightarrow> isdigit (hd line) \<and> CHR ''.'' \<in> set line)
       \<and> (numbered_list_rule line \<longrightarrow> filter_lines (line # rest) = filter_lines rest)
       \<and> (spec_numbered_marker line \<longrightarrow> numbered_list_rule line)"
proof -
  from assms(1) obtain c cs where line: "line = c # cs"
    by (cases line) auto
  have a: "numbered_list_rule line \<longleftrightarrow> isdigit (hd line) \<and> CHR ''.'' \<in> set line"
    unfolding numbered_list_rule_def line by (simp add: contains_char)
  have b: "numbered_list_rule line \<longrightarrow> filter_lines (line # rest) = filter_lines rest"
    using assms(2) by (simp add: Let_def)
  have c: "spec_numbered_marker line \<longrightarrow> numbered_list_rule line"
    unfolding a by (auto simp: spec_numbered_marker_def split: list.splits)
  from a b c show ?thesis by blast
qed

theorem numbered_list_rule_digit_and_dot_witness:
  "''10. Supabase'' \<noteq> [] \<and> strip ''10. Supabase'' = ''10. Supabase''
   \<and> numbered_list_rule ''10. Supabase''
   \<and> filter_lines [''10. Supabase'', ''Railway''] = filter_lines [''Railway'']"
proof -
  have h1: "''10. Supabase'' \<noteq> []" by simp
  have h2: "strip ''10. Supabase'' = ''10. Supabase''" by code_simp
  have d: "isdigit (hd ''10. Supabase'') \<and> CHR ''.'' \<in> set ''10. Supabase''"
    by code_simp
  show ?thesis
    using numbered_list_rule_digit_and_dot [OF h1 h2, of "[''Railway'']"] h1 h2 d
    by blast
qed

text \<open>
  C4. On the five lines of the specification's example the classifier returns exactly
  \<open>PlanetScale\<close>, both on the list of lines and on the text that has one line each.
\<close>

theorem classifier_example:
  "filter_lines [''Here are the tools:'', ''1. Supabase'', ''PlanetScale'',
     ''This summary mentions many tools'',
     ''Railway CLI deploy assistant extra words here too''] = [''PlanetScale'']
   \<and> classify (''Here are the tools:'' @ [CHR 0x0A] @ ''1. Supabase'' @ [CHR 0x0A]
        @ ''PlanetScale'' @ [CHR 0x0A] @ ''This summary mentions many tools'' @ [CHR 0x0A]
        @ ''Railway CLI deploy assistant extra words here too'') = [''PlanetScale'']"
  by code_simp

text \<open>
  C5. The line filter is idempotent: on any list of lines a second pass removes nothing,
  and in particular the lines the classifier produced from a text are returned unchanged.
\<close>

theorem classifier_idempotent:
  "filter_lines (filter_lines ls) = filter_lines ls
   \<and> filter_lines (classify text) = classify text"
  by (simp add: classify_def filter_lines_idem)

section \<open>Properties of the Recovery Engine\<close>

subsection \<open>Fallback synthesis\<close>

lemma is_str_list_map_PStr: "is_str_list (PList (map PStr xs))"
  by (simp add: is_str_list_def list_all_iff is_str_def)

lemma fallback_pricing_cases:
  "fallback_pricing c \<in> {''Free'', ''Freemium'', ''Enterprise'', ''Paid'', ''Unknown''}"
  by (simp add: fallback_pricing_def Let_def)

lemma is_pricing_fallback: "is_pricing (PStr (fallback_pricing c))"
  using fallback_pricing_cases [of c]
  by (auto simp: is_pricing_def pricing_values_def)

lemma CompanyAnalysis_fallback_args:
  assumes "is_pricing (PStr p)"
  shows "CompanyAnalysis
           [(''pricing_model'', PStr p), (''is_open_source'', PNone),
            (''tech_stack'', PList (map PStr t)), (''description'', PStr d),
            (''api_available'', PNone), (''language_support'', PList (map PStr l)),
            (''integration_capabilities'', PList (map PStr i))] =
         Inr \<lparr>pricing_model = PStr p, is_open_source = PNone,
              tech_stack = PList (map PStr t), description = PStr d,
              api_available = PNone, language_support = PList (map PStr l),
              integration_capabilities = PList (map PStr i)\<rparr>"
  unfolding CompanyAnalysis_def Let_def get_or_def
  using assms
  by (simp add: is_str_list_map_PStr is_optional_bool_def is_str_def)

text \<open>The fallback always constructs its record: the constructor accepts every
  argument the fallback passes.\<close>

lemma create_fallback_analysis_Inr:
  "\<exists>langs integ. create_fallback_analysis n r c =
     Inr \<lparr>pricing_model = PStr (fallback_pricing c), is_open_source = PNone,
          tech_stack = PList [], description = PStr (n @ '' is a developer tool''),
          api_available = PNone, language_support = PList (map PStr langs),
          integration_capabilities = PList (map PStr integ)\<rparr>"
  unfolding create_fallback_analysis_def Let_def
  apply (simp only: CompanyAnalysis_fallback_args [OF is_pricing_fallback])
  apply (rule exI, rule exI)
  apply (simp only: list.map(1))
  done

lemma contains_trans: "contains s w \<Longrightarrow> contains w v \<Longrightarrow> contains s v"
  unfolding contains_def by (rule sublist_order.order.trans)

lemma freemium_keywords_contain_free:
  "contains ''freemium'' ''free''" "contains ''free tier'' ''free''"
  "contains ''free plan'' ''free''"
  by code_simp+

lemma fallback_pricing_not_freemium: "fallback_pricing c \<noteq> ''Freemium''"
  unfolding fallback_pricing_def Let_def
  using freemium_keywords_contain_free
  by (auto dest: contains_trans)

lemma fallback_pricing_spec: "fallback_pricing c = spec_pricing_scan c"
  by (simp add: fallback_pricing_def spec_pricing_scan_def spec_keyword_groups_def Let_def)

subsection \<open>One attempt\<close>

lemma llm_invoke_trace:
  "trace (snd (llm_invoke env msgs s)) = trace s @ [Invoke msgs]"
  by (simp add: llm_invoke_def split: prod.splits)

lemma attempt_body_trace:
  "trace (snd (attempt_body env n c k s)) = trace s @ [Invoke (analysis_messages n c)]"
  unfolding attempt_body_def
  using llm_invoke_trace [of env "analysis_messages n c" s]
  by (auto split: prod.splits sum.splits content.splits)

text \<open>The last attempt never asks for another one.\<close>

lemma attempt_body_last:
  "max_retries - 1 \<le> k \<Longrightarrow> fst (attempt_body env n c k s) \<noteq> Inr Continue"
  unfolding attempt_body_def Let_def
  by (auto split: prod.splits sum.splits content.splits option.splits simp: map_sum_def)

lemma attempt_body_empty_first:
  assumes "llm env (analysis_messages n c) (world s) = (Inr (Text r), w)" "strip r = []"
    "k < max_retries - 1"
  shows "attempt_body env n c k s =
    (Inr Continue, \<lparr>world = w, trace = trace s @ [Invoke (analysis_messages n c)]\<rparr>)"
  using assms by (simp add: attempt_body_def llm_invoke_def)

lemma attempt_body_empty_last:
  assumes "llm env (analysis_messages n c) (world s) = (Inr (Text r), w)" "strip r = []"
    "\<not> k < max_retries - 1"
  shows "attempt_body env n c k s =
    (Inl (ValueError ''Empty response from LLM''),
     \<lparr>world = w, trace = trace s @ [Invoke (analysis_messages n c)]\<rparr>)"
  using assms by (simp add: attempt_body_def llm_invoke_def)

subsection \<open>The retry loop\<close>

lemma attempts_upt: "[0..<max_retries] = [0, 1]"
  by (simp add: max_retries_def upt_rec)

lemma analyze_attempts_last:
  assumes "max_retries - 1 \<le> k"
  shows "\<exists>a. fst (analyze_attempts env n c (k # rest) s) = Inr (Some a)"
proof (cases "attempt_body env n c k s")
  case (Pair r s')
  show ?thesis
  proof (cases r)
    case (Inl e)
    obtain a where "create_fallback_analysis n [] c = Inr a"
      using create_fallback_analysis_Inr by blast
    with Pair Inl assms show ?thesis by simp
  next
    case (Inr f)
    with attempt_body_last [OF assms, of env n c s] Pair have "f \<noteq> Continue"
      by auto
    then obtain a where "f = Return a" by (cases f) auto
    with Pair Inr show ?thesis by simp
  qed
qed

lemma analyze_attempts_first:
  assumes "\<And>s'. \<exists>a. fst (analyze_attempts env n c rest s') = Inr (Some a)"
  shows "\<exists>a. fst (analyze_attempts env n c (k # rest) s) = Inr (Some a)"
proof (cases "attempt_body env n c k s")
  case (Pair r s')
  obtain a where fb: "create_fallback_analysis n [] c = Inr a"
    using create_fallback_analysis_Inr by blast
  show ?thesis
  proof (cases r)
    case (Inl e)
    with Pair assms [of s'] fb show ?thesis by simp
  next
    case (Inr f)
    with Pair assms [of s'] show ?thesis by (cases f) simp_all
  qed
qed

lemma analyze_returns:
  "\<exists>a. fst (analyze_company_content env n c s) = Inr (Some a)"
proof -
  have "\<And>s'. \<exists>a. fst (analyze_attempts env n c [1] s') = Inr (Some a)"
    by (rule analyze_attempts_last) (simp add: max_retries_def)
  then have "\<exists>a. fst (analyze_attempts env n c [0, 1] s) = Inr (Some a)"
    by (rule analyze_attempts_first)
  then show ?thesis
    by (simp only: analyze_company_content_def attempts_upt)
qed

text \<open>Each attempt makes one generation call, so a run over \<open>ks\<close> attempts makes at
  most \<open>length ks\<close> of them, and nothing else.\<close>

lemma analyze_attempts_trace:
  "\<exists>k \<le> length ks. trace (snd (analyze_attempts env n c ks s))
       = trace s @ replicate k (Invoke (analysis_messages n c))"
proof (induction ks arbitrary: s)
  case Nil
  then show ?case by simp
next
  case (Cons k ks)
  obtain r s' where body: "attempt_body env n c k s = (r, s')"
    by (cases "attempt_body env n c k s")
  with attempt_body_trace [of env n c k s]
  have tr: "trace s' = trace s @ [Invoke (analysis_messages n c)]" by simp
  from Cons.IH [of s'] obtain j where j: "j \<le> length ks"
    "trace (snd (analyze_attempts env n c ks s'))
       = trace s' @ replicate j (Invoke (analysis_messages n c))"
    by blast
  have stop: "trace s' = trace s @ replicate 1 (Invoke (analysis_messages n c))"
    using tr by simp
  have go: "trace (snd (analyze_attempts env n c ks s'))
      = trace s @ replicate (Suc j) (Invoke (analysis_messages n c))"
    using j(2) tr by simp
  have "trace (snd (analyze_attempts env n c (k # ks) s)) = trace s'
      \<or> trace (snd (analyze_attempts env n c (k # ks) s))
          = trace (snd (analyze_attempts env n c ks s'))"
    using body by (auto split: sum.splits flow.splits)
  then show ?case
  proof
    assume "trace (snd (analyze_attempts env n c (k # ks) s)) = trace s'"
    with stop have "trace (snd (analyze_attempts env n c (k # ks) s))
        = trace s @ replicate 1 (Invoke (analysis_messages n c))"
      by simp
    moreover have "1 \<le> length (k # ks)" by simp
    ultimately show ?thesis by blast
  next
    assume "trace (snd (analyze_attempts env n c (k # ks) s))
        = trace (snd (analyze_attempts env n c ks s'))"
    with go have "trace (snd (analyze_attempts env n c (k # ks) s))
        = trace s @ replicate (Suc j) (Invoke (analysis_messages n c))"
      by simp
    moreover have "Suc j \<le> length (k # ks)" using j(1) by simp
    ultimately show ?thesis by blast
  qed
qed

lemma analyze_trace:
  "\<exists>k \<le> 2. trace (snd (analyze_company_content env n c s))
       = trace s @ replicate k (Invoke (analysis_messages n c))"
proof -
  have "length [0, 1::nat] = 2" by simp
  with analyze_attempts_trace [of "[0, 1]" env n c s] show ?thesis
    by (simp only: analyze_company_content_def attempts_upt)
qed

lemma llm_calls_append: "llm_calls (xs @ ys) = llm_calls xs + llm_calls ys"
  by (simp add: llm_calls_def)

lemma llm_calls_replicate: "llm_calls (replicate k (Invoke m)) = k"
  by (simp add: llm_calls_def)

lemma searches_append: "searches (xs @ ys) = searches xs @ searches ys"
  by (simp add: searches_def)

lemma searches_replicate: "searches (replicate k (Invoke m)) = []"
  by (induction k) (simp_all add: searches_def)

lemma llm_calls_simps [simp]:
  "llm_calls [] = 0"
  "llm_calls (Invoke m # evs) = Suc (llm_calls evs)"
  "llm_calls (Search q k # evs) = llm_calls evs"
  "llm_calls (Scrape u # evs) = llm_calls evs"
  by (simp_all add: llm_calls_def)

lemma searches_simps [simp]:
  "searches [] = []"
  "searches (Invoke m # evs) = searches evs"
  "searches (Search q k # evs) = (q, k) # searches evs"
  "searches (Scrape u # evs) = searches evs"
  by (simp_all add: searches_def)

lemma analyze_llm_calls:
  "llm_calls (trace (snd (analyze_company_content env n c s))) \<le> llm_calls (trace s) + 2"
  using analyze_trace [of env n c s]
  by (auto simp: llm_calls_append llm_calls_replicate)

lemma analyze_searches:
  "searches (trace (snd (analyze_company_content env n c s))) = searches (trace s)"
  using analyze_trace [of env n c s]
  by (auto simp: searches_append searches_replicate)

subsection \<open>The invariant of the analyses produced\<close>

lemma fallback_invariant:
  "create_fallback_analysis n r c = Inr a \<Longrightarrow> tool_analysis_invariant a"
  using create_fallback_analysis_Inr [of n r c] fallback_pricing_cases [of c]
  by (auto simp: tool_analysis_invariant_def is_list_def)

lemma CompanyAnalysis_invariant:
  assumes "CompanyAnalysis kwargs = Inr a"
  shows "tool_analysis_invariant a"
proof -
  let ?b = "\<lparr>pricing_model = get_or kwargs ''pricing_model'' (PStr ''Unknown''),
             is_open_source = get_or kwargs ''is_open_source'' PNone,
             tech_stack = get_or kwargs ''tech_stack'' (PList []),
             description = get_or kwargs ''description'' PNone,
             api_available = get_or kwargs ''api_available'' PNone,
             language_support = get_or kwargs ''language_support'' (PList []),
             integration_capabilities = get_or kwargs ''integration_capabilities'' (PList [])\<rparr>"
  from assms have a: "a = ?b"
    and ok: "is_pricing (pricing_model ?b)" "is_optional_bool (is_open_source ?b)"
      "is_str_list (tech_stack ?b)" "is_optional_bool (api_available ?b)"
      "is_str_list (language_support ?b)" "is_str_list (integration_capabilities ?b)"
    by (auto simp: CompanyAnalysis_def Let_def split: if_splits)
  have l: "\<And>v. is_str_list v \<Longrightarrow> is_list v"
    by (auto simp: is_str_list_def is_list_def split: pyval.splits)
  have b: "\<And>v. is_optional_bool v \<Longrightarrow> v \<in> {PBool True, PBool False, PNone}"
    by (auto simp: is_optional_bool_def split: pyval.splits)
  have p: "\<And>v. is_pricing v \<Longrightarrow>
      v \<in> PStr ` {''Free'', ''Freemium'', ''Paid'', ''Enterprise'', ''Unknown''}"
    by (auto simp: is_pricing_def pricing_values_def split: pyval.splits)
  show ?thesis
    unfolding tool_analysis_invariant_def a
    using l [OF ok(3)] l [OF ok(5)] l [OF ok(6)] b [OF ok(2)] b [OF ok(4)] p [OF ok(1)]
    by blast
qed

lemma parse_analysis_invariant:
  "parse_analysis env j = Inr a \<Longrightarrow> tool_analysis_invariant a"
  by (auto simp: parse_analysis_def split: sum.splits pyval.splits
      dest: CompanyAnalysis_invariant)

lemma attempt_body_invariant:
  assumes "fst (attempt_body env n c k s) = Inr (Return a)"
  shows "tool_analysis_invariant a"
proof -
  from assms have "(\<exists>j. parse_analysis env j = Inr a)
      \<or> (\<exists>r. create_fallback_analysis n r c = Inr a)"
    unfolding attempt_body_def Let_def
    by (auto split: prod.splits sum.splits content.splits if_splits option.splits
        simp: map_sum_def)
  then show ?thesis
    using parse_analysis_invariant fallback_invariant by blast
qed

lemma analyze_attempts_invariant:
  "fst (analyze_attempts env n c ks s) = Inr (Some a) \<Longrightarrow> tool_analysis_invariant a"
proof (induction ks arbitrary: s)
  case Nil
  then show ?case by simp
next
  case (Cons k ks)
  obtain r s' where body: "attempt_body env n c k s = (r, s')"
    by (cases "attempt_body env n c k s")
  show ?case
  proof (cases r)
    case (Inl e)
    with Cons.prems body have
      "fst (analyze_attempts env n c ks s') = Inr (Some a)
       \<or> create_fallback_analysis n [] c = Inr a"
      by (auto split: if_splits simp: map_sum_def split: sum.splits)
    then show ?thesis using Cons.IH fallback_invariant by blast
  next
    case (Inr f)
    show ?thesis
    proof (cases f)
      case Continue
      with Cons.prems body Inr show ?thesis using Cons.IH by simp
    next
      case (Return b)
      with Cons.prems body Inr have "b = a" by simp
      with body Inr Return attempt_body_invariant [of env n c k s a] show ?thesis by simp
    qed
  qed
qed

subsection \<open>The repairs made by the parse path\<close>

lemma map_of_coerce_bool_other:
  "k' \<noteq> k \<Longrightarrow> map_of (coerce_bool d k) k' = map_of d k'"
  by (simp add: coerce_bool_def update_conv' split: option.splits pyval.splits)

lemma coerce_bool_not_str:
  "map_of (coerce_bool d k) k = Some v \<Longrightarrow> \<not> is_str v"
  by (auto simp: coerce_bool_def update_conv' is_str_def split: option.splits pyval.splits if_splits)

lemma map_of_ensure_list_other:
  "k' \<noteq> k \<Longrightarrow> map_of (ensure_list d k) k' = map_of d k'"
  by (simp add: ensure_list_def update_conv' split: option.splits)

lemma ensure_list_is_list:
  "\<exists>v. map_of (ensure_list d k) k = Some v \<and> is_list v"
  by (auto simp: ensure_list_def update_conv' is_list_def split: option.splits)

lemma map_of_ensure_key_other:
  "k' \<noteq> k \<Longrightarrow> map_of (ensure_key d k v) k' = map_of d k'"
  by (simp add: ensure_key_def update_conv')

lemma ensure_key_present: "map_of (ensure_key d k v) k \<noteq> None"
  by (simp add: ensure_key_def update_conv')

lemma repair_data_shape:
  "(\<exists>v. map_of (repair_data d) ''tech_stack'' = Some v \<and> is_list v)
   \<and> (\<exists>v. map_of (repair_data d) ''language_support'' = Some v \<and> is_list v)
   \<and> (\<exists>v. map_of (repair_data d) ''integration_capabilities'' = Some v \<and> is_list v)
   \<and> \<not> is_str (get_or (repair_data d) ''is_open_source'' PNone)
   \<and> \<not> is_str (get_or (repair_data d) ''api_available'' PNone)
   \<and> map_of (repair_data d) ''pricing_model'' \<noteq> None
   \<and> map_of (repair_data d) ''description'' \<noteq> None"
proof -
  define d1 where "d1 = coerce_bool d ''is_open_source''"
  define d2 where "d2 = coerce_bool d1 ''api_available''"
  define e1 where "e1 = ensure_list d2 ''tech_stack''"
  define e2 where "e2 = ensure_list e1 ''language_support''"
  define e3 where "e3 = ensure_list e2 ''integration_capabilities''"
  define d4 where "d4 = ensure_key e3 ''pricing_model'' (PStr ''Unknown'')"
  define d5 where "d5 = ensure_key d4 ''description'' (PStr ''No description available'')"
  have r: "repair_data d = d5"
    by (simp add: repair_data_def Let_def d1_def d2_def e1_def e2_def e3_def d4_def d5_def)
  have ts: "map_of d5 ''tech_stack'' = map_of e1 ''tech_stack''"
    by (simp add: d5_def d4_def e3_def e2_def map_of_ensure_key_other map_of_ensure_list_other)
  have ls: "map_of d5 ''language_support'' = map_of e2 ''language_support''"
    by (simp add: d5_def d4_def e3_def map_of_ensure_key_other map_of_ensure_list_other)
  have ic: "map_of d5 ''integration_capabilities'' = map_of e3 ''integration_capabilities''"
    by (simp add: d5_def d4_def map_of_ensure_key_other)
  have os: "map_of d5 ''is_open_source'' = map_of d1 ''is_open_source''"
    by (simp add: d5_def d4_def e3_def e2_def e1_def d2_def map_of_ensure_key_other
        map_of_ensure_list_other map_of_coerce_bool_other)
  have aa: "map_of d5 ''api_available'' = map_of d2 ''api_available''"
    by (simp add: d5_def d4_def e3_def e2_def e1_def map_of_ensure_key_other
        map_of_ensure_list_other)
  have pm: "map_of d5 ''pricing_model'' = map_of d4 ''pricing_model''"
    by (simp add: d5_def map_of_ensure_key_other)
  have "\<not> is_str (get_or d5 ''is_open_source'' PNone)"
    using coerce_bool_not_str [of d "''is_open_source''"]
    by (auto simp: get_or_def os d1_def is_str_def split: option.splits)
  moreover have "\<not> is_str (get_or d5 ''api_available'' PNone)"
    using coerce_bool_not_str [of d1 "''api_available''"]
    by (auto simp: get_or_def aa d2_def is_str_def split: option.splits)
  moreover have "\<exists>v. map_of e1 ''tech_stack'' = Some v \<and> is_list v"
    unfolding e1_def by (rule ensure_list_is_list)
  moreover have "\<exists>v. map_of e2 ''language_support'' = Some v \<and> is_list v"
    unfolding e2_def by (rule ensure_list_is_list)
  moreover have "\<exists>v. map_of e3 ''integration_capabilities'' = Some v \<and> is_list v"
    unfolding e3_def by (rule ensure_list_is_list)
  moreover have "map_of d4 ''pricing_model'' \<noteq> None"
    unfolding d4_def by (rule ensure_key_present)
  moreover have "map_of d5 ''description'' \<noteq> None"
    unfolding d5_def by (rule ensure_key_present)
  ultimately show ?thesis
    unfolding r ts ls ic pm by blast
qed

subsection \<open>Results for the Recovery Engine\<close>

text \<open>
  C1. For every tool name, every content, and every behaviour of the collaborators (the
  text-generation call raising or returning any content, \<open>json.loads\<close> raising or
  returning any value), \<open>_analyze_company_content\<close> returns an analysis: it neither
  raises nor falls through the loop. The exceptions of the model are the instances of
  \<open>Exception\<close>, the class the handler catches.
\<close>

theorem analyze_never_raises:
  "\<exists>a. fst (analyze_company_content env company_name content s) = Inr (Some a)"
  by (rule analyze_returns)

text \<open>
  C2. Every analysis \<open>_analyze_company_content\<close> returns, from the parse path or from
  the fallback, has lists in its three list fields, one of the five pricing values, and
  true, false or unset in its two optional booleans.
\<close>

theorem analysis_invariant:
  assumes "fst (analyze_company_content env company_name content s) = Inr (Some a)"
  shows "tool_analysis_invariant a"
  using assms analyze_attempts_invariant
  unfolding analyze_company_content_def by blast

theorem analysis_invariant_witness:
  "fst (analyze_company_content (scripted_env NoData NoPage one_object) ''X''
          ''Free plan available''
          (script [Inr (Text ''Sure! {\"is_open_source\": \"TRUE\", \"tech_stack\": 3} ok'')]))
     = Inr (Some \<lparr>pricing_model = PStr ''Unknown'', is_open_source = PBool True,
                   tech_stack = PList [], description = PStr ''No description available'',
                   api_available = PNone, language_support = PList [],
                   integration_capabilities = PList []\<rparr>)
   \<and> tool_analysis_invariant
         \<lparr>pricing_model = PStr ''Unknown'', is_open_source = PBool True,
          tech_stack = PList [], description = PStr ''No description available'',
          api_available = PNone, language_support = PList [],
          integration_capabilities = PList []\<rparr>"
proof -
  have h: "fst (analyze_company_content (scripted_env NoData NoPage one_object) ''X''
          ''Free plan available''
          (script [Inr (Text ''Sure! {\"is_open_source\": \"TRUE\", \"tech_stack\": 3} ok'')]))
     = Inr (Some \<lparr>pricing_model = PStr ''Unknown'', is_open_source = PBool True,
                   tech_stack = PList [], description = PStr ''No description available'',
                   api_available = PNone, language_support = PList [],
                   integration_capabilities = PList []\<rparr>)"
    by code_simp
  from h analysis_invariant [OF h] show ?thesis by blast
qed

text \<open>
  C7. When the text-generation call returns a content that is empty once stripped on
  both attempts, \<open>_analyze_company_content\<close> makes exactly these two calls and returns,
  without raising, the fallback analysis: its description is the tool name followed by
  \<open>is a developer tool\<close>, and its pricing model is the result of the ordered keyword
  scan of the content (Free, Freemium, Enterprise, Paid, else Unknown).
\<close>

theorem empty_responses_fallback:
  assumes "llm env (analysis_messages n c) (world s) = (Inr (Text r0), w1)"
    and "strip r0 = []"
    and "llm env (analysis_messages n c) w1 = (Inr (Text r1), w2)"
    and "strip r1 = []"
  shows "\<exists>a. analyze_company_content env n c s =
           (Inr (Some a),
            \<lparr>world = w2, trace = trace s @ [Invoke (analysis_messages n c),
                                             Invoke (analysis_messages n c)]\<rparr>)
         \<and> create_fallback_analysis n [] c = Inr a
         \<and> description a = PStr (n @ '' is a developer tool'')
         \<and> pricing_model a = PStr (spec_pricing_scan c)"
proof -
  let ?s1 = "\<lparr>world = w1, trace = trace s @ [Invoke (analysis_messages n c)]\<rparr>"
  have b0: "attempt_body env n c 0 s = (Inr Continue, ?s1)"
    using assms(1,2) by (rule attempt_body_empty_first) (simp add: max_retries_def)
  have "llm env (analysis_messages n c) (world ?s1) = (Inr (Text r1), w2)"
    using assms(3) by simp
  then have b1: "attempt_body env n c (Suc 0) ?s1 =
      (Inl (ValueError ''Empty response from LLM''),
       \<lparr>world = w2, trace = trace ?s1 @ [Invoke (analysis_messages n c)]\<rparr>)"
    using assms(4) by (rule attempt_body_empty_last) (simp add: max_retries_def)
  obtain langs integ where fb: "create_fallback_analysis n [] c =
     Inr \<lparr>pricing_model = PStr (fallback_pricing c), is_open_source = PNone,
          tech_stack = PList [], description = PStr (n @ '' is a developer tool''),
          api_available = PNone, language_support = PList (map PStr langs),
          integration_capabilities = PList (map PStr integ)\<rparr>"
    using create_fallback_analysis_Inr by blast
  have "analyze_company_content env n c s =
      (map_sum id Some (create_fallback_analysis n [] c),
       \<lparr>world = w2, trace = trace ?s1 @ [Invoke (analysis_messages n c)]\<rparr>)"
    unfolding analyze_company_content_def attempts_upt
    by (simp add: b0 b1 max_retries_def)
  with fb show ?thesis
    by (simp add: fallback_pricing_spec)
qed

theorem empty_responses_fallback_witness:
  "strip '''' = [] \<and> strip ''  '' = []
   \<and> (\<exists>a. fst (analyze_company_content (scripted_env NoData NoPage no_json) ''X''
                 ''Free plan available'' (script [Inr (Text ''''), Inr (Text ''  '')]))
              = Inr (Some a)
          \<and> description a = PStr ''X is a developer tool''
          \<and> pricing_model a = PStr ''Free'')"
proof -
  let ?env = "scripted_env NoData NoPage no_json"
  let ?m = "analysis_messages ''X'' ''Free plan available''"
  have h1: "llm ?env ?m (world (script [Inr (Text ''''), Inr (Text ''  '')]))
              = (Inr (Text ''''), [Inr (Text ''  '')])"
    by (simp add: scripted_env_def script_def)
  have h2: "strip '''' = []" by (simp add: strip_def)
  have h3: "llm ?env ?m [Inr (Text ''  '')] = (Inr (Text ''  ''), [])"
    by (simp add: scripted_env_def)
  have h4: "strip ''  '' = []" by code_simp
  have p: "spec_pricing_scan ''Free plan available'' = ''Free''" by code_simp
  from empty_responses_fallback [OF h1 h2 h3 h4] obtain a where
    "fst (analyze_company_content ?env ''X'' ''Free plan available''
            (script [Inr (Text ''''), Inr (Text ''  '')])) = Inr (Some a)"
    "description a = PStr (''X'' @ '' is a developer tool'')"
    "pricing_model a = PStr (spec_pricing_scan ''Free plan available'')"
    by auto
  with p have "\<exists>a. fst (analyze_company_content ?env ''X'' ''Free plan available''
            (script [Inr (Text ''''), Inr (Text ''  '')])) = Inr (Some a)
          \<and> description a = PStr ''X is a developer tool''
          \<and> pricing_model a = PStr ''Free''"
    by auto
  with h2 h4 show ?thesis by blast
qed

text \<open>
  C10. The fallback never gives the pricing model Freemium: each keyword of the Freemium
  group contains \<open>free\<close>, so a content in which one of them occurs is already matched
  by the Free group.
\<close>

theorem fallback_never_freemium:
  "fallback_pricing content \<noteq> ''Freemium''
   \<and> (\<exists>a. create_fallback_analysis company_name llm_response content = Inr a
          \<and> pricing_model a \<noteq> PStr ''Freemium'')
   \<and> list_all (\<lambda>word. contains word ''free'') [''freemium'', ''free tier'', ''free plan'']"
proof -
  obtain langs integ where "create_fallback_analysis company_name llm_response content =
     Inr \<lparr>pricing_model = PStr (fallback_pricing content), is_open_source = PNone,
          tech_stack = PList [], description = PStr (company_name @ '' is a developer tool''),
          api_available = PNone, language_support = PList (map PStr langs),
          integration_capabilities = PList (map PStr integ)\<rparr>"
    using create_fallback_analysis_Inr by blast
  then show ?thesis
    using fallback_pricing_not_freemium [of content] freemium_keywords_contain_free
    by simp
qed

section \<open>Properties of the Pipeline Orchestrator\<close>

lemma search_companies_trace:
  "search_companies env q k s = (r, s') \<Longrightarrow> trace s' = trace s @ [Search q k]"
  by (auto simp: search_companies_def split: prod.splits)

lemma scrape_company_pages_trace:
  "scrape_company_pages env u s = (r, s') \<Longrightarrow> trace s' = trace s @ [Scrape u]"
  by (auto simp: scrape_company_pages_def split: prod.splits)

lemma llm_invoke_trace_eq:
  "llm_invoke env m s = (r, s') \<Longrightarrow> trace s' = trace s @ [Invoke m]"
  by (auto simp: llm_invoke_def split: prod.splits)

lemma research_tools_effects:
  "(\<exists>cs. fst (research_tools env names acc s) = Inr cs)
   \<and> searches (trace (snd (research_tools env names acc s)))
       = searches (trace s) @ map official_site names
   \<and> llm_calls (trace (snd (research_tools env names acc s)))
       \<le> llm_calls (trace s) + 2 * length names"
proof (induction names arbitrary: acc s)
  case Nil
  then show ?case by simp
next
  case (Cons t rest)
  note IH = Cons.IH
  obtain r1 s1 where search: "search_companies env (t @ '' official site'') 1 s = (r1, s1)"
    by (cases "search_companies env (t @ '' official site'') 1 s")
  then have tr1: "trace s1 = trace s @ [Search (t @ '' official site'') 1]"
    by (rule search_companies_trace)
  have "\<exists>acc' s'. research_tools env (t # rest) acc s = research_tools env rest acc' s'
          \<and> searches (trace s') = searches (trace s) @ [official_site t]
          \<and> llm_calls (trace s') \<le> llm_calls (trace s) + 2"
  proof (cases "results_data r1")
    case Nil
    then have "research_tools env (t # rest) acc s = research_tools env rest acc s1"
      using search by simp
    moreover have "searches (trace s1) = searches (trace s) @ [official_site t]"
      "llm_calls (trace s1) \<le> llm_calls (trace s) + 2"
      using tr1 by (simp_all add: searches_append llm_calls_append official_site_def)
    ultimately show ?thesis by blast
  next
    case (Cons result others)
    define url where "url = (case result_url result of Some u \<Rightarrow> u | None \<Rightarrow> [])"
    obtain page s2 where scrape: "scrape_company_pages env url s1 = (page, s2)"
      by (cases "scrape_company_pages env url s1")
    then have tr2: "trace s2 = trace s1 @ [Scrape url]"
      by (rule scrape_company_pages_trace)
    define content where "content = (case page of Page (Some md) \<Rightarrow> md | _ \<Rightarrow> [])"
    obtain a where "fst (analyze_company_content env t content s2) = Inr (Some a)"
      using analyze_returns by blast
    then obtain s3 where an: "analyze_company_content env t content s2 = (Inr (Some a), s3)"
      by (cases "analyze_company_content env t content s2") simp
    have "searches (trace s3) = searches (trace s2)"
      "llm_calls (trace s3) \<le> llm_calls (trace s2) + 2"
      using analyze_searches [of env t content s2] analyze_llm_calls [of env t content s2] an
      by simp_all
    then have tr3: "searches (trace s3) = searches (trace s) @ [official_site t]"
      "llm_calls (trace s3) \<le> llm_calls (trace s) + 2"
      using tr1 tr2 by (simp_all add: searches_append llm_calls_append official_site_def)
    have "\<exists>acc'. research_tools env (t # rest) acc s = research_tools env rest acc' s3"
      using search Cons scrape an
      by (simp add: Let_def url_def [symmetric] content_def [symmetric]) (rule exI, rule refl)
    with tr3 show ?thesis by blast
  qed
  then obtain acc' s' where step:
    "research_tools env (t # rest) acc s = research_tools env rest acc' s'"
    and tr: "searches (trace s') = searches (trace s) @ [official_site t]"
      "llm_calls (trace s') \<le> llm_calls (trace s) + 2"
    by blast
  from IH [of acc' s'] have
    "\<exists>cs. fst (research_tools env rest acc' s') = Inr cs"
    "searches (trace (snd (research_tools env rest acc' s')))
       = searches (trace s') @ map official_site rest"
    "llm_calls (trace (snd (research_tools env rest acc' s')))
       \<le> llm_calls (trace s') + 2 * length rest"
    by blast+
  with tr show ?case
    unfolding step by simp
qed

lemma gather_content_llm_calls:
  "llm_calls (trace (snd (gather_content env rs acc s))) = llm_calls (trace s)"
proof (induction rs arbitrary: acc s)
  case Nil
  then show ?case by simp
next
  case (Cons result rest)
  define url where "url = (case result_url result of Some u \<Rightarrow> u | None \<Rightarrow> [])"
  obtain page s' where scrape: "scrape_company_pages env url s = (page, s')"
    by (cases "scrape_company_pages env url s")
  then have tr: "trace s' = trace s @ [Scrape url]"
    by (rule scrape_company_pages_trace)
  have "(\<exists>acc'. gather_content env (result # rest) acc s = gather_content env rest acc' s)
      \<or> (\<exists>acc'. gather_content env (result # rest) acc s = gather_content env rest acc' s')"
    using scrape
    by (auto simp: Let_def url_def [symmetric] split: scraped.splits option.splits)
  with Cons.IH tr show ?case
    by (auto simp: llm_calls_append)
qed

lemma extract_tools_step_llm_calls:
  "llm_calls (trace (snd (extract_tools_step env state s))) = llm_calls (trace s) + 1"
proof -
  let ?q = "query state @ '' tools comparison best alternatives''"
  obtain r1 s1 where search: "search_companies env ?q 3 s = (r1, s1)"
    by (cases "search_companies env ?q 3 s")
  then have tr1: "trace s1 = trace s @ [Search ?q 3]"
    by (rule search_companies_trace)
  obtain c s2 where gather: "gather_content env (results_data r1) [] s1 = (c, s2)"
    by (cases "gather_content env (results_data r1) [] s1")
  with gather_content_llm_calls [of env "results_data r1" "[]" s1]
  have tr2: "llm_calls (trace s2) = llm_calls (trace s1)" by simp
  obtain r3 s3 where inv: "llm_invoke env (extraction_messages (query state) c) s2 = (r3, s3)"
    by (cases "llm_invoke env (extraction_messages (query state) c) s2")
  then have tr3: "trace s3 = trace s2 @ [Invoke (extraction_messages (query state) c)]"
    by (rule llm_invoke_trace_eq)
  have "snd (extract_tools_step env state s) = s3"
    using search gather inv
    by (auto simp: extract_tools_step_def Let_def split: sum.splits content.splits)
  with tr1 tr2 tr3 show ?thesis
    by (simp add: llm_calls_append)
qed

lemma analyze_step_llm_calls:
  "llm_calls (trace (snd (analyze_step env state s))) = llm_calls (trace s) + 1"
  using llm_invoke_trace [of env "recommendation_messages env state" s]
  by (simp add: analyze_step_def llm_calls_append)

lemma choose_tool_names_llm_calls:
  "llm_calls (trace (snd (choose_tool_names env state s))) = llm_calls (trace s)"
proof (cases "extracted_tools state = []")
  case True
  obtain r s' where search: "search_companies env (query state) 4 s = (r, s')"
    by (cases "search_companies env (query state) 4 s")
  then have "trace s' = trace s @ [Search (query state) 4]"
    by (rule search_companies_trace)
  with True search show ?thesis
    by (simp add: choose_tool_names_def llm_calls_append)
next
  case False
  then show ?thesis by (simp add: choose_tool_names_def)
qed

lemma research_step_llm_calls:
  "llm_calls (trace (snd (research_step env state s)))
     \<le> llm_calls (trace s) + 2 * length (fst (choose_tool_names env state s))"
proof -
  obtain names s1 where ch: "choose_tool_names env state s = (names, s1)"
    by (cases "choose_tool_names env state s")
  with choose_tool_names_llm_calls [of env state s]
  have "llm_calls (trace s1) = llm_calls (trace s)" by simp
  with research_tools_effects [of env names "[]" s1] ch show ?thesis
    by (simp add: research_step_def)
qed

text \<open>
  C6. When five or more candidates were extracted, the searches of the research stage
  are exactly the official-site searches for the first four candidates, in their order;
  four searches are issued and none for a later candidate.
\<close>

theorem research_first_four:
  assumes "5 \<le> length (extracted_tools state)"
  shows "searches (trace (snd (research_step env state s)))
           = searches (trace s) @ map official_site (take 4 (extracted_tools state))
       \<and> length (searches (trace (snd (research_step env state s))))
           = length (searches (trace s)) + 4"
proof -
  from assms have ne: "extracted_tools state \<noteq> []" by auto
  then have "research_step env state s = research_tools env (take 4 (extracted_tools state)) [] s"
    by (simp add: research_step_def choose_tool_names_def)
  then have "searches (trace (snd (research_step env state s)))
           = searches (trace s) @ map official_site (take 4 (extracted_tools state))"
    using research_tools_effects [of env "take 4 (extracted_tools state)" "[]" s] by simp
  with assms show ?thesis by simp
qed

theorem research_first_four_witness:
  "5 \<le> length [''Supabase'', ''PlanetScale'', ''Railway'', ''Appwrite'', ''Nhost'']
   \<and> searches (trace (snd (research_step
        (scripted_env (Data [\<lparr>result_url = Some ''https://example.com'',
                              result_markdown = None, result_title = None\<rparr>])
           (Page (Some ''Free plan available'')) no_json)
        \<lparr>query = ''database'',
         extracted_tools = [''Supabase'', ''PlanetScale'', ''Railway'', ''Appwrite'', ''Nhost''],
         companies = [], analysis = None\<rparr>
        (script []))))
     = [(''Supabase official site'', 1), (''PlanetScale official site'', 1),
        (''Railway official site'', 1), (''Appwrite official site'', 1)]"
proof -
  have h: "5 \<le> length (extracted_tools \<lparr>query = ''database'',
         extracted_tools = [''Supabase'', ''PlanetScale'', ''Railway'', ''Appwrite'', ''Nhost''],
         companies = [], analysis = None\<rparr>)"
    by simp
  show ?thesis
    using research_first_four [OF h, of "scripted_env (Data [\<lparr>result_url = Some ''https://example.com'',
                              result_markdown = None, result_title = None\<rparr>])
           (Page (Some ''Free plan available'')) no_json" "script []"]
    by (simp add: official_site_def script_def)
qed

text \<open>
  C8. \<open>_analyze_company_content\<close> is a total function of its arguments and of the
  collaborators' answers: it returns an analysis after at most two generation calls.
  The stages do not retry: the extraction stage and the analyze stage make exactly one
  generation call each, and the research stage makes at most two for each tool name it
  researches, all of them inside \<open>_analyze_company_content\<close>.
\<close>

theorem analyze_bounded:
  "(\<exists>a. fst (analyze_company_content env company_name content s) = Inr (Some a))
   \<and> llm_calls (trace (snd (analyze_company_content env company_name content s)))
       \<le> llm_calls (trace s) + 2
   \<and> llm_calls (trace (snd (extract_tools_step env state s))) = llm_calls (trace s) + 1
   \<and> llm_calls (trace (snd (research_step env state s)))
       \<le> llm_calls (trace s) + 2 * length (fst (choose_tool_names env state s))
   \<and> llm_calls (trace (snd (analyze_step env state s))) = llm_calls (trace s) + 1"
  using analyze_returns [of env company_name content s]
    analyze_llm_calls [of env company_name content s]
    extract_tools_step_llm_calls [of env state s]
    research_step_llm_calls [of env state s]
    analyze_step_llm_calls [of env state s]
  by blast

text \<open>
  C9. If the generation call of the extraction stage raises, the stage returns the empty
  candidate list and the run goes on with the research stage from that list. If the
  generation call of the analyze stage raises, \<open>run\<close> ends with that exception and
  no final state.
\<close>

theorem generation_transport_failure:
  "(search_companies env (q @ '' tools comparison best alternatives'') 3 s = (found, s1)
      \<longrightarrow> gather_content env (results_data found) [] s1 = (all_content, s2)
      \<longrightarrow> llm env (extraction_messages q all_content) (world s2) = (Inl e, w)
      \<longrightarrow> extract_tools_step env (initial_state q) s
            = ([], \<lparr>world = w, trace = trace s2 @ [Invoke (extraction_messages q all_content)]\<rparr>)
          \<and> run env q s
            = run_from_research env ((initial_state q)\<lparr>extracted_tools := []\<rparr>)
                \<lparr>world = w, trace = trace s2 @ [Invoke (extraction_messages q all_content)]\<rparr>)
   \<and> (extract_tools_step env (initial_state q) s = (tools, t1)
      \<longrightarrow> research_step env ((initial_state q)\<lparr>extracted_tools := tools\<rparr>) t1 = (Inr cs, t2)
      \<longrightarrow> llm env (recommendation_messages env
                      ((initial_state q)\<lparr>extracted_tools := tools, companies := cs\<rparr>)) (world t2)
            = (Inl e', w')
      \<longrightarrow> run env q s
            = (Inl e', \<lparr>world = w', trace = trace t2 @ [Invoke (recommendation_messages env
                      ((initial_state q)\<lparr>extracted_tools := tools, companies := cs\<rparr>))]\<rparr>))"
proof (intro conjI impI)
  assume a: "search_companies env (q @ '' tools comparison best alternatives'') 3 s = (found, s1)"
    "gather_content env (results_data found) [] s1 = (all_content, s2)"
    "llm env (extraction_messages q all_content) (world s2) = (Inl e, w)"
  then show ex: "extract_tools_step env (initial_state q) s
            = ([], \<lparr>world = w, trace = trace s2 @ [Invoke (extraction_messages q all_content)]\<rparr>)"
    by (simp add: extract_tools_step_def initial_state_def llm_invoke_def)
  then show "run env q s
            = run_from_research env ((initial_state q)\<lparr>extracted_tools := []\<rparr>)
                \<lparr>world = w, trace = trace s2 @ [Invoke (extraction_messages q all_content)]\<rparr>"
    by (simp add: run_def)
next
  assume "extract_tools_step env (initial_state q) s = (tools, t1)"
    "research_step env ((initial_state q)\<lparr>extracted_tools := tools\<rparr>) t1 = (Inr cs, t2)"
    "llm env (recommendation_messages env
                      ((initial_state q)\<lparr>extracted_tools := tools, companies := cs\<rparr>)) (world t2)
            = (Inl e', w')"
  then show "run env q s
            = (Inl e', \<lparr>world = w', trace = trace t2 @ [Invoke (recommendation_messages env
                      ((initial_state q)\<lparr>extracted_tools := tools, companies := cs\<rparr>))]\<rparr>)"
    by (simp add: run_def run_from_research_def analyze_step_def llm_invoke_def)
qed

theorem generation_transport_failure_witness:
  "fst (extract_tools_step (scripted_env NoData NoPage no_json) (initial_state ''db'') (script [])) = []
   \<and> fst (run (scripted_env NoData NoPage no_json) ''db'' (script []))
       = Inl (OtherException ''connection refused'')"
proof -
  let ?env = "scripted_env NoData NoPage no_json"
  let ?s1 = "\<lparr>world = [] :: (exn + content) list,
              trace = [Search (''db'' @ '' tools comparison best alternatives'') 3]\<rparr>"
  let ?s3 = "\<lparr>world = [] :: (exn + content) list,
              trace = trace ?s1 @ [Invoke (extraction_messages ''db'' [])]\<rparr>"
  let ?s4 = "\<lparr>world = [] :: (exn + content) list, trace = trace ?s3 @ [Search ''db'' 4]\<rparr>"
  let ?st = "(initial_state ''db'')\<lparr>extracted_tools := [], companies := []\<rparr>"
  have h1: "search_companies ?env (''db'' @ '' tools comparison best alternatives'') 3 (script [])
              = (NoData, ?s1)"
    by (simp add: search_companies_def scripted_env_def script_def)
  have h2: "gather_content ?env (results_data NoData) [] ?s1 = ([], ?s1)"
    by (simp add: results_data_def)
  have h3: "llm ?env (extraction_messages ''db'' []) (world ?s1)
              = (Inl (OtherException ''connection refused''), [])"
    by (simp add: scripted_env_def)
  note a = generation_transport_failure [of ?env "''db''" "script []", THEN conjunct1, rule_format,
      OF h1 h2 h3]
  from a have h4: "extract_tools_step ?env (initial_state ''db'') (script []) = ([], ?s3)"
    by blast
  have h5: "research_step ?env ((initial_state ''db'')\<lparr>extracted_tools := []\<rparr>) ?s3 = (Inr [], ?s4)"
    by (simp add: research_step_def choose_tool_names_def initial_state_def search_companies_def
        scripted_env_def results_data_def)
  have h6: "llm ?env (recommendation_messages ?env ?st) (world ?s4)
              = (Inl (OtherException ''connection refused''), [])"
    by (simp add: scripted_env_def)
  note b = generation_transport_failure [of ?env "''db''" "script []", THEN conjunct2, rule_format,
      OF h4 h5 h6]
  from h4 b show ?thesis by simp
qed

end
